theory Spec2Isabelle
  imports Complex_Main
begin

section \<open>Derivative maps\<close>

text \<open>
  A \<open>Derivative\<close> is a dictionary from the identity of a dof-owning node to the gradient
  with respect to that node's own dofs. Python floats are idealised as \<open>real\<close>
  throughout; a gradient entry is any real vector space \<open>'v\<close> (\<open>real\<close> itself for
  the single dof of a \<open>Current\<close>).
\<close>

type_synonym ('k, 'v) derivative = "'k \<rightharpoonup> 'v"

text \<open>
  Modelled from the spec: \<open>Derivative.__add__\<close> (simsopt._core.derivative, not among the
  sources). "Accumulating two Derivative maps sums entries key-wise, inserting missing
  keys with zero-initialized vectors."
\<close>

definition derivative_add ::
  "('k, 'v::monoid_add) derivative \<Rightarrow> ('k, 'v) derivative \<Rightarrow> ('k, 'v) derivative" where
  "derivative_add x y =
     (\<lambda>k. if x k = None \<and> y k = None then None
          else Some ((case x k of None \<Rightarrow> 0 | Some a \<Rightarrow> a) + (case y k of None \<Rightarrow> 0 | Some b \<Rightarrow> b)))"

text \<open>
  Modelled from the spec: \<open>Derivative.__rmul__\<close> (same missing module). A scalar times
  a Derivative scales every entry ("scalar \<open>*\<close> ... scale the components'
  value/Derivative").
\<close>

definition derivative_scale :: "real \<Rightarrow> ('k, 'v::real_vector) derivative \<Rightarrow> ('k, 'v) derivative" where
  "derivative_scale c x = (\<lambda>k. map_option (\<lambda>a. c *\<^sub>R a) (x k))"

section \<open>Currents (simsopt/field/coil.py)\<close>

text \<open>
  \<open>AssertionError\<close>, \<open>AttributeError\<close> and \<open>ValueError\<close> are the Python exceptions the
  modelled code can raise. \<open>DimensionMismatch\<close> is the error the specification names;
  no path of the sources raises it.
\<close>

datatype error = AssertionError | AttributeError | ValueError | DimensionMismatch

text \<open>The identity of an object that owns dofs (Python's \<open>id\<close>).\<close>

type_synonym ref = nat

text \<open>
  The Python objects that reach the current algebra: the three node classes with their
  fields in constructor order (\<open>ScaledCurrent(current_to_scale, scale)\<close>,
  \<open>CurrentSum(current_a, current_b)\<close>), and a plain number \<open>PyNum\<close>, which the
  operators also accept as an operand. The fields of the derived nodes are references
  to other objects and are never reassigned, so a derived node is the tree of what it
  refers to; a \<open>Current\<close> is known by its identity, and its single scalar dof lives in
  a store \<open>ref \<Rightarrow> real\<close> that \<open>set_dofs\<close> may change.
\<close>

datatype pyobj =
    Current ref
  | ScaledCurrent pyobj real
  | CurrentSum pyobj pyobj
  | PyNum real

fun is_node :: "pyobj \<Rightarrow> bool" where
  "is_node (PyNum x) = False"
| "is_node c = True"

text \<open>
  \<open>get_value\<close>. For a \<open>Current\<close> it is \<open>sopp.Current.get_value\<close> (native, not among
  the sources). Modelled from the spec: "\<open>Current\<close> owns one scalar dof = current
  value". A number has no \<open>get_value\<close> attribute.
\<close>

fun get_value :: "(ref \<Rightarrow> real) \<Rightarrow> pyobj \<Rightarrow> error + real" where
  "get_value \<sigma> (Current r) = Inr (\<sigma> r)"
| "get_value \<sigma> (ScaledCurrent c k) =
     (case get_value \<sigma> c of Inl e \<Rightarrow> Inl e | Inr v \<Rightarrow> Inr (k * v))"
| "get_value \<sigma> (CurrentSum a b) =
     (case get_value \<sigma> a of Inl e \<Rightarrow> Inl e
      | Inr va \<Rightarrow> (case get_value \<sigma> b of Inl e \<Rightarrow> Inl e | Inr vb \<Rightarrow> Inr (va + vb)))"
| "get_value \<sigma> (PyNum x) = Inl AttributeError"

text \<open>The negation of what a call of \<open>get_value\<close> gives: an exception stays, a value changes sign.\<close>

definition negated :: "error + real \<Rightarrow> error + real" where
  "negated r = (case r of Inl e \<Rightarrow> Inl e | Inr v \<Rightarrow> Inr (- v))"

text \<open>\<open>vjp\<close> of the three classes; the keys of the result are \<open>Current\<close> identities.\<close>

fun vjp :: "pyobj \<Rightarrow> 'v::real_vector \<Rightarrow> error + (ref, 'v) derivative" where
  "vjp (Current r) v_current = Inr [r \<mapsto> v_current]"
| "vjp (ScaledCurrent c k) v_current =
     (case vjp c v_current of Inl e \<Rightarrow> Inl e | Inr d \<Rightarrow> Inr (derivative_scale k d))"
| "vjp (CurrentSum a b) v_current =
     (case vjp a v_current of Inl e \<Rightarrow> Inl e
      | Inr d1 \<Rightarrow> (case vjp b v_current of Inl e \<Rightarrow> Inl e | Inr d2 \<Rightarrow> Inr (derivative_add d1 d2)))"
| "vjp (PyNum x) v_current = Inl AttributeError"

subsection \<open>The operators of \<open>CurrentBase\<close>\<close>

text \<open>\<open>__mul__\<close> and \<open>__rmul__\<close>: the other operand must be a float or an int.\<close>

fun mul :: "pyobj \<Rightarrow> pyobj \<Rightarrow> error + pyobj" where
  "mul self (PyNum k) = Inr (ScaledCurrent self k)"
| "mul self other = Inl AssertionError"

fun rmul :: "pyobj \<Rightarrow> pyobj \<Rightarrow> error + pyobj" where
  "rmul self (PyNum k) = Inr (ScaledCurrent self k)"
| "rmul self other = Inl AssertionError"

definition neg :: "pyobj \<Rightarrow> pyobj" where
  "neg self = ScaledCurrent self (- 1)"

definition add :: "pyobj \<Rightarrow> pyobj \<Rightarrow> pyobj" where
  "add self other = CurrentSum self other"

text \<open>Python's unary minus: a number is negated, a node answers with \<open>__neg__\<close>.\<close>

fun py_neg :: "pyobj \<Rightarrow> pyobj" where
  "py_neg (PyNum x) = PyNum (- x)"
| "py_neg c = neg c"

definition sub :: "pyobj \<Rightarrow> pyobj \<Rightarrow> pyobj" where
  "sub self other = CurrentSum self (py_neg other)"

text \<open>
  \<open>__radd__\<close>: \<open>other == 0\<close> holds for the number zero only (a node is not a number).
\<close>

definition radd :: "pyobj \<Rightarrow> pyobj \<Rightarrow> pyobj" where
  "radd self other = (if other = PyNum 0 then self else add self other)"

text \<open>
  Python's binary \<open>+\<close> and the builtin \<open>sum\<close> with its default start value \<open>0\<close>: a node
  on the left answers with \<open>__add__\<close>; a number on the left of a node cannot add it, so
  the node answers with \<open>__radd__\<close>.
\<close>

fun py_add :: "pyobj \<Rightarrow> pyobj \<Rightarrow> pyobj" where
  "py_add (PyNum x) (PyNum y) = PyNum (x + y)"
| "py_add (PyNum x) c = radd c (PyNum x)"
| "py_add a other = add a other"

definition py_sum :: "pyobj list \<Rightarrow> pyobj" where
  "py_sum xs = foldl py_add (PyNum 0) xs"

section \<open>Symmetry expansion (simsopt/field/coil.py)\<close>

text \<open>
  A curve is some base curve object \<open>'c\<close> or a \<open>RotatedCurve(curve, phi, flip)\<close> around
  another curve (the class is in simsopt.geo.curve; only its constructor is used here).
\<close>

datatype 'c curve = BaseCurve 'c | RotatedCurve "'c curve" real bool

datatype 'c coil = Coil "'c curve" pyobj

definition flip_list :: "bool \<Rightarrow> bool list" where
  "flip_list stellsym = (if stellsym then [False, True] else [False])"

definition apply_symmetries_to_curves :: "'c curve list \<Rightarrow> int \<Rightarrow> bool \<Rightarrow> 'c curve list" where
  "apply_symmetries_to_curves base_curves nfp stellsym =
     [if k = 0 \<and> \<not> flip then base_curves ! i
      else RotatedCurve (base_curves ! i) (2 * pi * real_of_int k / real_of_int nfp) flip.
      k \<leftarrow> [0..nfp - 1], flip \<leftarrow> flip_list stellsym, i \<leftarrow> [0..<length base_curves]]"

definition apply_symmetries_to_currents :: "pyobj list \<Rightarrow> int \<Rightarrow> bool \<Rightarrow> pyobj list" where
  "apply_symmetries_to_currents base_currents nfp stellsym =
     [if flip then ScaledCurrent (base_currents ! i) (- 1) else base_currents ! i.
      k \<leftarrow> [0..nfp - 1], flip \<leftarrow> flip_list stellsym, i \<leftarrow> [0..<length base_currents]]"

definition coils_via_symmetries ::
  "'c curve list \<Rightarrow> pyobj list \<Rightarrow> int \<Rightarrow> bool \<Rightarrow> error + 'c coil list" where
  "coils_via_symmetries curves currents nfp stellsym =
     (if length curves \<noteq> length currents then Inl AssertionError
      else Inr (map2 Coil (apply_symmetries_to_curves curves nfp stellsym)
                          (apply_symmetries_to_currents currents nfp stellsym)))"

section \<open>Arrays of points\<close>

text \<open>
  A numpy array whose last axis has length 3 is modelled by the row-major sequence of
  its 3-vectors; elementwise operations and sums along the last axis act on each
  vector on its own, so they do not depend on how the leading axes are split.
\<close>

type_synonym vec3 = "real \<times> real \<times> real"

fun norm3 :: "vec3 \<Rightarrow> real" where
  "norm3 (x, y, z) = sqrt (x * x + y * y + z * z)"

fun times3 :: "vec3 \<Rightarrow> real \<Rightarrow> vec3" where
  "times3 (x, y, z) c = (x * c, y * c, z * c)"

fun scale3 :: "real \<Rightarrow> vec3 \<Rightarrow> vec3" where
  "scale3 c (x, y, z) = (c * x, c * y, c * z)"

fun divide3 :: "vec3 \<Rightarrow> real \<Rightarrow> vec3" where
  "divide3 (x, y, z) c = (x / c, y / c, z / c)"

fun add3 :: "vec3 \<Rightarrow> vec3 \<Rightarrow> vec3" where
  "add3 (x, y, z) (x', y', z') = (x + x', y + y', z + z')"

fun sum_prod3 :: "vec3 \<Rightarrow> vec3 \<Rightarrow> real" where
  "sum_prod3 (x, y, z) (x', y', z') = x * x' + y * y' + z * z'"

definition arr_add :: "vec3 list \<Rightarrow> vec3 list \<Rightarrow> vec3 list" where
  "arr_add v w = map2 add3 v w"

definition arr_scale :: "real \<Rightarrow> vec3 list \<Rightarrow> vec3 list" where
  "arr_scale c v = map (scale3 c) v"

definition zeros_like :: "vec3 list \<Rightarrow> vec3 list" where
  "zeros_like v = map (\<lambda>_. (0, 0, 0)) v"

section \<open>SquaredFlux (simsopt/objectives/fluxobjective.py)\<close>

text \<open>
  The surface and the field are collaborators whose classes are not among the sources:
  \<open>normal\<close> is the array \<open>surface.normal()\<close> of shape \<open>(nphi, ntheta, 3)\<close>, \<open>B\<close> the
  array \<open>field.B()\<close> of shape \<open>(N, 3)\<close>, one row for each evaluation point, and \<open>B_vjp\<close>
  the method \<open>field.B_vjp\<close>, whose result type \<open>'d\<close> is left open. \<open>target\<close> is
  \<open>None\<close> or, as the docstring of the class has it, an \<open>nphi x ntheta\<close> array: it has
  one entry for each point of the surface, and \<open>t i\<close> is its entry at the \<open>i\<close>-th point
  in row-major order.

  Floats are reals, except where numpy divides by zero. At a point whose normal has
  norm zero, \<open>1./absn\<close> is \<open>inf\<close> (a warning, no exception) and the product of the zero
  normal with it is \<open>nan\<close> in every component; whatever is computed from a \<open>nan\<close> is
  \<open>nan\<close>. A row of \<open>nan\<close> is \<open>None\<close>.
\<close>

record Surface =
  normal :: "vec3 list"

record 'd MagneticField =
  B :: "vec3 list"
  B_vjp :: "vec3 option list \<Rightarrow> 'd"

record 'd SquaredFlux =
  surface :: Surface
  target :: "(nat \<Rightarrow> real) option"
  field :: "'d MagneticField"

text \<open>
  The body of \<open>dJ\<close>, statement by statement. \<open>reshape(n.shape)\<close> raises \<open>ValueError\<close>
  unless the field has as many rows as the surface has points; \<open>absn.size\<close> is the
  number of points.
\<close>

definition dJ_body :: "'d SquaredFlux \<Rightarrow> error + 'd" where
  "dJ_body self =
     (let n = normal (surface self);
          absn = map norm3 n;
          unitn = map2 (\<lambda>v a. if a = 0 then None else Some (times3 v (1 / a))) n absn
      in if length (B (field self)) \<noteq> length n then Inl ValueError
         else
           let Bcoil = B (field self);
               Bcoil_n = map2 (\<lambda>b u. map_option (sum_prod3 b) u) Bcoil unitn;
               B_n = (case target self of
                        Some t \<Rightarrow> map (\<lambda>i. map_option (\<lambda>x. x - t i) (Bcoil_n ! i)) [0..<length Bcoil_n]
                      | None \<Rightarrow> Bcoil_n);
               dJdB = map (\<lambda>(b, u, a).
                             case b of None \<Rightarrow> None
                             | Some b' \<Rightarrow> (case u of None \<Rightarrow> None
                                 | Some u' \<Rightarrow> Some (divide3 (times3 (scale3 b' u') a) (real (length absn)))))
                        (zip B_n (zip unitn absn))
           in Inr (B_vjp (field self) dJdB))"

text \<open>
  What a call of the decorated \<open>dJ\<close> returns: the Derivative of the body, or the flat
  gradient array made from it.
\<close>

datatype ('d, 'g) dJ_result = Partials 'd | Gradient 'g

text \<open>
  The decorator \<open>derivative_dec\<close> is defined in simsopt._core.derivative, which is not
  among the sources. What it does is read off the callers that are: in
  examples/2_Intermediate/stage_two_permanent_magnet_optimization.py the result of the
  plain call \<open>dJ()\<close> of a \<open>SquaredFlux\<close> goes to \<open>np.linalg.norm\<close>, is multiplied with an
  array of the shape of the dofs, and is the gradient that \<open>scipy.optimize.minimize\<close>
  takes with \<open>jac=True\<close>. The decorated method has the keyword \<open>partials\<close>, \<open>False\<close> by
  default: with \<open>partials=True\<close> it returns what the body returns; otherwise it returns
  that Derivative called on the object, \<open>func(self)(self)\<close>, the flat gradient.
  \<open>Derivative.__call__\<close> is the parameter \<open>call\<close>.
\<close>

definition derivative_dec ::
  "('d \<Rightarrow> 's \<Rightarrow> 'g) \<Rightarrow> ('s \<Rightarrow> error + 'd) \<Rightarrow> 's \<Rightarrow> bool \<Rightarrow> error + ('d, 'g) dJ_result" where
  "derivative_dec call func self partials =
     (if partials then (case func self of Inl e \<Rightarrow> Inl e | Inr d \<Rightarrow> Inr (Partials d))
      else (case func self of Inl e \<Rightarrow> Inl e | Inr d \<Rightarrow> Inr (Gradient (call d self))))"

definition dJ ::
  "('d \<Rightarrow> 'd SquaredFlux \<Rightarrow> 'g) \<Rightarrow> 'd SquaredFlux \<Rightarrow> bool \<Rightarrow> error + ('d, 'g) dJ_result" where
  "dJ call = derivative_dec call dJ_body"

text \<open>
  The cotangent in the words of the specification, for a choice \<open>nhat\<close> of the vectors
  it writes \<open>n\<hat>\<close>: at each point the residual \<open>B\<cdot>n\<hat> - target\<close> (target zero when none is
  given), times \<open>n\<hat>\<close>, times \<open>|n\<hat>|\<close>, over the number \<open>N\<close> of points.
\<close>

definition spec_residual :: "vec3 list \<Rightarrow> vec3 list \<Rightarrow> (nat \<Rightarrow> real) option \<Rightarrow> real list" where
  "spec_residual nhat Bs tgt =
     map (\<lambda>i. sum_prod3 (Bs ! i) (nhat ! i) - (case tgt of None \<Rightarrow> 0 | Some t \<Rightarrow> t i))
       [0..<length nhat]"

definition spec_cotangent :: "vec3 list \<Rightarrow> vec3 list \<Rightarrow> (nat \<Rightarrow> real) option \<Rightarrow> vec3 list" where
  "spec_cotangent nhat Bs tgt =
     map (\<lambda>i. scale3 (spec_residual nhat Bs tgt ! i * norm3 (nhat ! i) / real (length nhat)) (nhat ! i))
       [0..<length nhat]"

text \<open>
  The cotangent the code forms: the residual is taken against the unit normal
  \<open>n / |n|\<close>, and the weight is the norm \<open>|n|\<close> of the normal \<open>n\<close> itself. Where the
  normal is the zero vector the row is \<open>nan\<close>.
\<close>

definition unit_normal :: "vec3 list \<Rightarrow> vec3 list" where
  "unit_normal n = map (\<lambda>v. scale3 (1 / norm3 v) v) n"

definition area_cotangent :: "vec3 list \<Rightarrow> vec3 list \<Rightarrow> (nat \<Rightarrow> real) option \<Rightarrow> vec3 option list" where
  "area_cotangent n Bs tgt =
     map (\<lambda>i. if norm3 (n ! i) = 0 then None
              else Some (scale3 (spec_residual (unit_normal n) Bs tgt ! i * norm3 (n ! i) / real (length n))
                           (unit_normal n ! i)))
       [0..<length n]"

section \<open>Filament rotation (simsopt/geo/multifilament.py)\<close>

definition vadd :: "real list \<Rightarrow> real list \<Rightarrow> real list" where
  "vadd xs ys = map2 (+) xs ys"

definition vsub :: "real list \<Rightarrow> real list \<Rightarrow> real list" where
  "vsub xs ys = map2 (-) xs ys"

text \<open>
  \<open>jaxrotation_pure\<close> and \<open>jaxrotationdash_pure\<close>: the loop over \<open>range(1, order+1)\<close>
  updates the whole array \<open>rotation\<close> twice in each round.
\<close>

definition jaxrotation_pure :: "real list \<Rightarrow> real list \<Rightarrow> nat \<Rightarrow> real list" where
  "jaxrotation_pure dofs points order' =
     foldl (\<lambda>rotation j.
              vadd (vadd rotation (map (\<lambda>p. dofs ! (2 * j - 1) * sin (2 * pi * real j * p)) points))
                   (map (\<lambda>p. dofs ! (2 * j) * cos (2 * pi * real j * p)) points))
       (map (\<lambda>r. r + dofs ! 0) (replicate (length points) 0))
       [1..<order' + 1]"

definition jaxrotationdash_pure :: "real list \<Rightarrow> real list \<Rightarrow> nat \<Rightarrow> real list" where
  "jaxrotationdash_pure dofs points order' =
     foldl (\<lambda>rotation j.
              vsub (vadd rotation
                      (map (\<lambda>p. dofs ! (2 * j - 1) * 2 * pi * real j * cos (2 * pi * real j * p)) points))
                   (map (\<lambda>p. dofs ! (2 * j) * 2 * pi * real j * sin (2 * pi * real j * p)) points))
       (replicate (length points) 0)
       [1..<order' + 1]"

text \<open>
  A matrix is the list of its rows. \<open>set_col jac c col\<close> is the assignment
  \<open>jac[:, c] = col\<close>.
\<close>

definition set_col :: "real list list \<Rightarrow> nat \<Rightarrow> real list \<Rightarrow> real list list" where
  "set_col jac c col = map2 (\<lambda>row x. row[c := x]) jac col"

definition rotation_dcoeff :: "real list \<Rightarrow> nat \<Rightarrow> real list list" where
  "rotation_dcoeff points order' =
     foldl (\<lambda>jac j.
              set_col (set_col jac (2 * j - 1) (map (\<lambda>p. sin (2 * pi * real j * p)) points))
                      (2 * j + 0) (map (\<lambda>p. cos (2 * pi * real j * p)) points))
       (set_col (replicate (length points) (replicate (2 * order' + 1) 0)) 0
          (replicate (length points) 1))
       [1..<order' + 1]"

definition rotationdash_dcoeff :: "real list \<Rightarrow> nat \<Rightarrow> real list list" where
  "rotationdash_dcoeff points order' =
     foldl (\<lambda>jac j.
              set_col (set_col jac (2 * j - 1) (map (\<lambda>p. 2 * pi * real j * cos (2 * pi * real j * p)) points))
                      (2 * j + 0) (map (\<lambda>p. - 2 * pi * real j * sin (2 * pi * real j * p)) points))
       (replicate (length points) (replicate (2 * order' + 1) 0))
       [1..<order' + 1]"

text \<open>A matrix applied to a vector: each row's sum of products with the vector.\<close>

definition matvec :: "real list list \<Rightarrow> real list \<Rightarrow> real list" where
  "matvec jac c = map (\<lambda>row. sum_list (map2 (*) row c)) jac"

text \<open>
  A \<open>FilamentRotation\<close>: \<open>ident\<close> is the object's identity (its key in a Derivative),
  \<open>full_x\<close> the dof vector \<open>self._dofs.full_x\<close>.
\<close>

record 'k FilamentRotation =
  ident :: 'k
  order :: nat
  full_x :: "real list"
  quadpoints :: "real list"
  jac :: "real list list"
  jacdash :: "real list list"

definition FilamentRotation_init :: "'k \<Rightarrow> real list \<Rightarrow> nat \<Rightarrow> 'k FilamentRotation" where
  "FilamentRotation_init self_id quadpoints' order' =
     \<lparr> ident = self_id, order = order', full_x = replicate (2 * order' + 1) 0,
       quadpoints = quadpoints',
       jac = rotation_dcoeff quadpoints' order',
       jacdash = rotationdash_dcoeff quadpoints' order' \<rparr>"

text \<open>
  The rotation of a \<open>CurveShiftedRotated\<close> is a \<open>FilamentRotation\<close> or the
  \<open>ZeroRotation\<close> with its field \<open>zero\<close>.
\<close>

datatype 'k rotation = Filament "'k FilamentRotation" | ZeroRotation "real list"

definition ZeroRotation_init :: "real list \<Rightarrow> 'k rotation" where
  "ZeroRotation_init quadpoints' = ZeroRotation (replicate (length quadpoints') 0)"

fun alpha :: "'k rotation \<Rightarrow> real list \<Rightarrow> real list" where
  "alpha (Filament self) quadpoints' = jaxrotation_pure (full_x self) quadpoints' (order self)"
| "alpha (ZeroRotation zero) quadpoints' = zero"

fun alphadash :: "'k rotation \<Rightarrow> real list \<Rightarrow> real list" where
  "alphadash (Filament self) quadpoints' = jaxrotationdash_pure (full_x self) quadpoints' (order self)"
| "alphadash (ZeroRotation zero) quadpoints' = zero"

text \<open>
  \<open>sopp.vjp\<close> is native code, not among the sources; it is the parameter \<open>sopp_vjp\<close>.
\<close>

fun dalpha_by_dcoeff_vjp ::
  "(real list \<Rightarrow> real list list \<Rightarrow> 'v) \<Rightarrow> 'k rotation \<Rightarrow> real list \<Rightarrow> real list \<Rightarrow> ('k, 'v) derivative" where
  "dalpha_by_dcoeff_vjp sopp_vjp (Filament self) quadpoints' v = [ident self \<mapsto> sopp_vjp v (jac self)]"
| "dalpha_by_dcoeff_vjp sopp_vjp (ZeroRotation zero) quadpoints' v = Map.empty"

fun dalphadash_by_dcoeff_vjp ::
  "(real list \<Rightarrow> real list list \<Rightarrow> 'v) \<Rightarrow> 'k rotation \<Rightarrow> real list \<Rightarrow> real list \<Rightarrow> ('k, 'v) derivative" where
  "dalphadash_by_dcoeff_vjp sopp_vjp (Filament self) quadpoints' v = [ident self \<mapsto> sopp_vjp v (jacdash self)]"
| "dalphadash_by_dcoeff_vjp sopp_vjp (ZeroRotation zero) quadpoints' v = Map.empty"

section \<open>CurveShiftedRotated (simsopt/geo/multifilament.py)\<close>

text \<open>
  The base curve of the wrapper, by what the wrapper reads of it: its quadrature
  points, the arrays \<open>gamma()\<close>, \<open>gammadash()\<close>, \<open>gammadashdash()\<close>, and its three
  VJP methods.
\<close>

record ('k, 'v) Curve =
  curve_id :: 'k
  curve_quadpoints :: "real list"
  gamma :: "vec3 list"
  gammadash :: "vec3 list"
  gammadashdash :: "vec3 list"
  curve_dgamma_by_dcoeff_vjp :: "vec3 list \<Rightarrow> ('k, 'v) derivative"
  curve_dgammadash_by_dcoeff_vjp :: "vec3 list \<Rightarrow> ('k, 'v) derivative"
  curve_dgammadashdash_by_dcoeff_vjp :: "vec3 list \<Rightarrow> ('k, 'v) derivative"

text \<open>
  The eight functions that \<open>jax.vjp\<close> derives from \<open>rotated_centroid_frame\<close> and
  \<open>rotated_centroid_frame_dash\<close>. Automatic differentiation is the library's; the
  derived functions are parameters.
\<close>

record frame_vjps =
  rotated_centroid_frame_dcoeff_vjp0 ::
    "vec3 list \<Rightarrow> vec3 list \<Rightarrow> real list \<Rightarrow> vec3 list \<times> vec3 list \<times> vec3 list \<Rightarrow> vec3 list"
  rotated_centroid_frame_dcoeff_vjp1 ::
    "vec3 list \<Rightarrow> vec3 list \<Rightarrow> real list \<Rightarrow> vec3 list \<times> vec3 list \<times> vec3 list \<Rightarrow> vec3 list"
  rotated_centroid_frame_dcoeff_vjp2 ::
    "vec3 list \<Rightarrow> vec3 list \<Rightarrow> real list \<Rightarrow> vec3 list \<times> vec3 list \<times> vec3 list \<Rightarrow> real list"
  rotated_centroid_frame_dash_dcoeff_vjp0 ::
    "vec3 list \<Rightarrow> vec3 list \<Rightarrow> vec3 list \<Rightarrow> real list \<Rightarrow> real list \<Rightarrow>
       vec3 list \<times> vec3 list \<times> vec3 list \<Rightarrow> vec3 list"
  rotated_centroid_frame_dash_dcoeff_vjp1 ::
    "vec3 list \<Rightarrow> vec3 list \<Rightarrow> vec3 list \<Rightarrow> real list \<Rightarrow> real list \<Rightarrow>
       vec3 list \<times> vec3 list \<times> vec3 list \<Rightarrow> vec3 list"
  rotated_centroid_frame_dash_dcoeff_vjp2 ::
    "vec3 list \<Rightarrow> vec3 list \<Rightarrow> vec3 list \<Rightarrow> real list \<Rightarrow> real list \<Rightarrow>
       vec3 list \<times> vec3 list \<times> vec3 list \<Rightarrow> vec3 list"
  rotated_centroid_frame_dash_dcoeff_vjp3 ::
    "vec3 list \<Rightarrow> vec3 list \<Rightarrow> vec3 list \<Rightarrow> real list \<Rightarrow> real list \<Rightarrow>
       vec3 list \<times> vec3 list \<times> vec3 list \<Rightarrow> real list"
  rotated_centroid_frame_dash_dcoeff_vjp4 ::
    "vec3 list \<Rightarrow> vec3 list \<Rightarrow> vec3 list \<Rightarrow> real list \<Rightarrow> real list \<Rightarrow>
       vec3 list \<times> vec3 list \<times> vec3 list \<Rightarrow> real list"

text \<open>An entry of the list \<open>depends_on\<close> handed to \<open>Curve.__init__\<close>.\<close>

datatype ('k, 'v) dep = CurveDep "('k, 'v) Curve" | RotationDep "'k rotation"

record ('k, 'v) CurveShiftedRotated =
  curve :: "('k, 'v) Curve"
  dn :: real
  db :: real
  rotation :: "'k rotation"
  depends_on :: "('k, 'v) dep list"

text \<open>\<open>__init__(self, curve, dn, db, rotation=None)\<close>.\<close>

definition CurveShiftedRotated_init ::
  "('k, 'v) Curve \<Rightarrow> real \<Rightarrow> real \<Rightarrow> 'k rotation option \<Rightarrow> ('k, 'v) CurveShiftedRotated" where
  "CurveShiftedRotated_init curve' dn' db' rotation' =
     (let deps = [CurveDep curve'];
          deps = (case rotation' of None \<Rightarrow> deps | Some r \<Rightarrow> deps @ [RotationDep r])
      in \<lparr> curve = curve', dn = dn', db = db',
           rotation = (case rotation' of None \<Rightarrow> ZeroRotation_init (curve_quadpoints curve')
                       | Some r \<Rightarrow> r),
           depends_on = deps \<rparr>)"

definition dgamma_by_dcoeff_vjp ::
  "frame_vjps \<Rightarrow> (real list \<Rightarrow> real list list \<Rightarrow> 'v) \<Rightarrow> ('k, 'v::monoid_add) CurveShiftedRotated \<Rightarrow>
     vec3 list \<Rightarrow> ('k, 'v) derivative" where
  "dgamma_by_dcoeff_vjp jx sopp_vjp self v =
     (let g = gamma (curve self);
          gd = gammadash (curve self);
          a = alpha (rotation self) (curve_quadpoints (curve self));
          zero = zeros_like v;
          vg = rotated_centroid_frame_dcoeff_vjp0 jx g gd a
                 (zero, arr_scale (dn self) v, arr_scale (db self) v);
          vgd = rotated_centroid_frame_dcoeff_vjp1 jx g gd a
                  (zero, arr_scale (dn self) v, arr_scale (db self) v);
          va = rotated_centroid_frame_dcoeff_vjp2 jx g gd a
                 (zero, arr_scale (dn self) v, arr_scale (db self) v)
      in derivative_add
           (derivative_add (curve_dgamma_by_dcoeff_vjp (curve self) (arr_add v vg))
                           (curve_dgammadash_by_dcoeff_vjp (curve self) vgd))
           (dalpha_by_dcoeff_vjp sopp_vjp (rotation self) (curve_quadpoints (curve self)) va))"

definition dgammadash_by_dcoeff_vjp ::
  "frame_vjps \<Rightarrow> (real list \<Rightarrow> real list list \<Rightarrow> 'v) \<Rightarrow> ('k, 'v::monoid_add) CurveShiftedRotated \<Rightarrow>
     vec3 list \<Rightarrow> ('k, 'v) derivative" where
  "dgammadash_by_dcoeff_vjp jx sopp_vjp self v =
     (let g = gamma (curve self);
          gd = gammadash (curve self);
          gdd = gammadashdash (curve self);
          a = alpha (rotation self) (curve_quadpoints (curve self));
          ad = alphadash (rotation self) (curve_quadpoints (curve self));
          zero = zeros_like v;
          vg = rotated_centroid_frame_dash_dcoeff_vjp0 jx g gd gdd a ad
                 (zero, arr_scale (dn self) v, arr_scale (db self) v);
          vgd = rotated_centroid_frame_dash_dcoeff_vjp1 jx g gd gdd a ad
                  (zero, arr_scale (dn self) v, arr_scale (db self) v);
          vgdd = rotated_centroid_frame_dash_dcoeff_vjp2 jx g gd gdd a ad
                   (zero, arr_scale (dn self) v, arr_scale (db self) v);
          va = rotated_centroid_frame_dash_dcoeff_vjp3 jx g gd gdd a ad
                 (zero, arr_scale (dn self) v, arr_scale (db self) v);
          vad = rotated_centroid_frame_dash_dcoeff_vjp4 jx g gd gdd a ad
                  (zero, arr_scale (dn self) v, arr_scale (db self) v)
      in derivative_add
           (derivative_add
              (derivative_add
                 (derivative_add (curve_dgamma_by_dcoeff_vjp (curve self) vg)
                                 (curve_dgammadash_by_dcoeff_vjp (curve self) (arr_add v vgd)))
                 (curve_dgammadashdash_by_dcoeff_vjp (curve self) vgdd))
              (dalpha_by_dcoeff_vjp sopp_vjp (rotation self) (curve_quadpoints (curve self)) va))
           (dalphadash_by_dcoeff_vjp sopp_vjp (rotation self) (curve_quadpoints (curve self)) vad))"

section \<open>Derivative maps: algebra\<close>

lemma derivative_add_empty_left: "derivative_add Map.empty y = y"
  by (rule ext) (simp add: derivative_add_def split: option.splits)

lemma derivative_add_empty_right: "derivative_add x Map.empty = x"
  by (rule ext) (simp add: derivative_add_def split: option.splits)

lemma dom_derivative_add: "dom (derivative_add x y) = dom x \<union> dom y"
  by (auto simp: derivative_add_def dom_def split: if_splits)

lemma derivative_scale_add:
  "derivative_scale c (derivative_add x y) =
     derivative_add (derivative_scale c x) (derivative_scale c y)"
  by (rule ext) (simp add: derivative_scale_def derivative_add_def scaleR_add_right split: option.splits)

lemma derivative_scale_scale:
  "derivative_scale c (derivative_scale k x) = derivative_scale k (derivative_scale c x)"
  by (rule ext) (simp add: derivative_scale_def option.map_comp comp_def mult.commute)

lemma derivative_scale_singleton: "derivative_scale c [r \<mapsto> v] = [r \<mapsto> c *\<^sub>R v]"
  by (rule ext) (simp add: derivative_scale_def)

lemma derivative_add_singletons:
  "derivative_add [r \<mapsto> v] [s \<mapsto> w] = (if r = s then [r \<mapsto> v + w] else [r \<mapsto> v, s \<mapsto> w])"
  by (rule ext) (simp add: derivative_add_def)

section \<open>Properties of the currents\<close>

text \<open>
  \<open>vjp\<close> is linear in the cotangent: scaling the cotangent scales every entry of the
  result, and an exception is the same exception.
\<close>

lemma vjp_linear:
  "vjp c (k *\<^sub>R v) = (case vjp c v of Inl e \<Rightarrow> Inl e | Inr d \<Rightarrow> Inr (derivative_scale k d))"
  by (induction c)
    (simp_all add: derivative_scale_singleton derivative_scale_scale derivative_scale_add
      split: sum.splits)

text \<open>
  Claim C4. \<open>Current.vjp(v)\<close> is the Derivative \<open>{self: v}\<close>. The \<open>vjp(v)\<close> of
  \<open>ScaledCurrent(base, k)\<close> is what \<open>base.vjp\<close> gives for the cotangent \<open>k\<cdot>v\<close>; for a
  \<open>Current\<close> base that is the map assigning \<open>k\<cdot>v\<close> to the base. The \<open>vjp(v)\<close> of
  \<open>CurrentSum(a, b)\<close> is the key-wise sum of \<open>a.vjp(v)\<close> and \<open>b.vjp(v)\<close>: two different
  \<open>Current\<close>s receive \<open>v\<close> each, and one \<open>Current\<close> on both sides receives \<open>v + v\<close>.
\<close>

theorem vjp_rules:
  "vjp (Current r) v = Inr [r \<mapsto> v]
   \<and> vjp (ScaledCurrent base k) v = vjp base (k *\<^sub>R v)
   \<and> vjp (ScaledCurrent (Current r) k) v = Inr [r \<mapsto> k *\<^sub>R v]
   \<and> vjp (CurrentSum a b) v =
       (case vjp a v of Inl e \<Rightarrow> Inl e
        | Inr d1 \<Rightarrow> (case vjp b v of Inl e \<Rightarrow> Inl e | Inr d2 \<Rightarrow> Inr (derivative_add d1 d2)))
   \<and> vjp (CurrentSum (Current r) (Current s)) v =
       Inr (if r = s then [r \<mapsto> v + v] else [r \<mapsto> v, s \<mapsto> v])"
  by (simp add: vjp_linear derivative_scale_singleton derivative_add_singletons)

lemma pyobj_not_sub: "CurrentSum a b \<noteq> a" "CurrentSum a b \<noteq> b" "ScaledCurrent a k \<noteq> a"
  by (induction a arbitrary: b k) auto

text \<open>
  Claim C7. For nodes \<open>a\<close> and \<open>b\<close> whose \<open>get_value()\<close> is \<open>va\<close> and \<open>vb\<close>: \<open>a + b\<close>
  has the value \<open>va + vb\<close>, \<open>-a\<close> the value \<open>-va\<close>, \<open>a - b\<close> the value \<open>va - vb\<close> and
  \<open>a * k\<close> the value \<open>k\<cdot>va\<close>. Each operator returns a derived node that holds its
  operands as they are and is none of them. No operator reads or writes the store of
  the dofs, so the values of the operands are what they were.
\<close>

theorem current_algebra:
  assumes "get_value \<sigma> a = Inr va" and "get_value \<sigma> b = Inr vb"
  shows "get_value \<sigma> (add a b) = Inr (va + vb)
       \<and> get_value \<sigma> (neg a) = Inr (- va)
       \<and> get_value \<sigma> (sub a b) = Inr (va - vb)
       \<and> get_value \<sigma> (ScaledCurrent a k) = Inr (k * va)
       \<and> add a b = CurrentSum a b \<and> sub a b = CurrentSum a (ScaledCurrent b (- 1))
       \<and> neg a = ScaledCurrent a (- 1)
       \<and> mul a (PyNum k) = Inr (ScaledCurrent a k) \<and> rmul a (PyNum k) = Inr (ScaledCurrent a k)
       \<and> add a b \<noteq> a \<and> add a b \<noteq> b \<and> sub a b \<noteq> a \<and> sub a b \<noteq> b \<and> neg a \<noteq> a
       \<and> ScaledCurrent a k \<noteq> a"
proof -
  have nb: "py_neg b = ScaledCurrent b (- 1)"
    using assms(2) by (cases b) (simp_all add: neg_def)
  have "sub a b \<noteq> b"
  proof
    assume "sub a b = b"
    then have "size (CurrentSum a (ScaledCurrent b (- 1))) = size b"
      by (simp add: sub_def nb)
    then show False by simp
  qed
  then show ?thesis
    using assms by (simp add: add_def neg_def sub_def nb pyobj_not_sub)
qed

theorem current_algebra_witness:
  "get_value (\<lambda>r. if r = 0 then 3 else 5) (add (Current 0) (Current 1)) = Inr 8
   \<and> get_value (\<lambda>r. if r = 0 then 3 else 5) (neg (Current 0)) = Inr (- 3)
   \<and> get_value (\<lambda>r. if r = 0 then 3 else 5) (sub (Current 0) (Current 1)) = Inr (- 2)
   \<and> mul (Current 0) (PyNum 2) = Inr (ScaledCurrent (Current 0) 2)
   \<and> add (Current 0) (Current 1) \<noteq> Current 0"
  using current_algebra [of "\<lambda>r. if r = 0 then 3 else 5" "Current 0" 3 "Current 1" 5 2]
  by simp

lemma foldl_py_add_node: "is_node c \<Longrightarrow> foldl py_add c xs = foldl add c xs"
proof (induction xs arbitrary: c)
  case Nil
  then show ?case by simp
next
  case (Cons x xs)
  have "py_add c x = add c x" using Cons.prems by (cases c) simp_all
  moreover have "is_node (add c x)" by (simp add: add_def)
  ultimately show ?case using Cons.IH by simp
qed

text \<open>
  Claim C8. For a node \<open>c\<close>, \<open>c.__radd__(0)\<close>, and so \<open>0 + c\<close>, is \<open>c\<close> itself; \<open>sum\<close> over a
  collection that starts with \<open>c\<close> is the repeated \<open>__add__\<close> from \<open>c\<close> on.
\<close>

theorem radd_zero_and_sum:
  assumes "is_node c"
  shows "radd c (PyNum 0) = c \<and> py_add (PyNum 0) c = c \<and> py_sum (c # xs) = foldl add c xs"
  using assms by (cases c) (simp_all add: py_sum_def radd_def foldl_py_add_node)

theorem radd_zero_and_sum_witness:
  "is_node (Current 0) \<and> radd (Current 0) (PyNum 0) = Current 0
   \<and> py_sum [Current 0, ScaledCurrent (Current 1) 2, Current 2] =
       CurrentSum (CurrentSum (Current 0) (ScaledCurrent (Current 1) 2)) (Current 2)"
  using radd_zero_and_sum [of "Current 0" "[ScaledCurrent (Current 1) 2, Current 2]"]
  by (simp add: add_def)

section \<open>Properties of the symmetry expansion\<close>

lemma length_apply_symmetries_to_curves:
  "length (apply_symmetries_to_curves base_curves nfp stellsym) =
     nat nfp * (length (flip_list stellsym) * length base_curves)"
  by (simp add: apply_symmetries_to_curves_def length_concat comp_def sum_list_triv)

lemma length_apply_symmetries_to_currents:
  "length (apply_symmetries_to_currents base_currents nfp stellsym) =
     nat nfp * (length (flip_list stellsym) * length base_currents)"
  by (simp add: apply_symmetries_to_currents_def length_concat comp_def sum_list_triv)

lemma map_nth_fun: "map (\<lambda>i. f (xs ! i)) [0..<length xs] = map f xs"
proof -
  have "map f (map (\<lambda>i. xs ! i) [0..<length xs]) = map f xs" by (simp only: map_nth)
  then show ?thesis by (simp add: comp_def)
qed

text \<open>
  Claim C2. For \<open>n\<close> curves, \<open>n\<close> currents and \<open>nfp \<ge> 1\<close>, \<open>coils_via_symmetries\<close>
  returns a list of exactly \<open>n\<cdot>nfp\<cdot>(1 + int(stellsym))\<close> coils.
\<close>

theorem coils_via_symmetries_count:
  assumes "length curves = length currents" and "1 \<le> nfp"
  shows "\<exists>coils. coils_via_symmetries curves currents nfp stellsym = Inr coils \<and>
           int (length coils) = int (length curves) * nfp * (1 + (if stellsym then 1 else 0))"
  using assms
  by (simp add: coils_via_symmetries_def length_apply_symmetries_to_curves
      length_apply_symmetries_to_currents flip_list_def)

theorem coils_via_symmetries_count_witness:
  "\<exists>coils. coils_via_symmetries [BaseCurve (0::nat), BaseCurve 1] [Current 0, Current 1] 2 True = Inr coils
     \<and> int (length coils) = 8"
  using coils_via_symmetries_count [of "[BaseCurve (0::nat), BaseCurve 1]" "[Current 0, Current 1]" 2 True]
  by simp

text \<open>
  Claim C3, as stated, fails: with one curve and no current the call fails, but with
  the \<open>AssertionError\<close> of the \<open>assert\<close> statement, not with \<open>DimensionMismatch\<close>.
\<close>

theorem coils_via_symmetries_mismatch_counterexample:
  "coils_via_symmetries [BaseCurve (0::nat)] [] 1 False = Inl AssertionError
   \<and> coils_via_symmetries [BaseCurve (0::nat)] [] 1 False \<noteq> Inl DimensionMismatch"
  by (simp add: coils_via_symmetries_def)

text \<open>
  Claim C3, amended. For lists of different lengths \<open>coils_via_symmetries\<close> fails with
  \<open>AssertionError\<close> and returns no list of coils.
\<close>

theorem coils_via_symmetries_mismatch:
  assumes "length curves \<noteq> length currents"
  shows "coils_via_symmetries curves currents nfp stellsym = Inl AssertionError"
  using assms by (simp add: coils_via_symmetries_def)

theorem coils_via_symmetries_mismatch_witness:
  "length [BaseCurve (0::nat), BaseCurve 1] \<noteq> length [Current 0]
   \<and> coils_via_symmetries [BaseCurve (0::nat), BaseCurve 1] [Current 0] 3 True = Inl AssertionError"
  using coils_via_symmetries_mismatch [of "[BaseCurve (0::nat), BaseCurve 1]" "[Current 0]" 3 True]
  by simp

lemma apply_symmetries_to_currents_blocks:
  "apply_symmetries_to_currents base_currents nfp True =
     concat (replicate (nat nfp) (base_currents @ map (\<lambda>c. ScaledCurrent c (- 1)) base_currents))"
  by (simp add: apply_symmetries_to_currents_def flip_list_def map_nth
      map_nth_fun [of "\<lambda>c. ScaledCurrent c (- 1)" base_currents] map_replicate_const)

lemma get_value_flipped: "get_value \<sigma> (ScaledCurrent c (- 1)) = negated (get_value \<sigma> c)"
  by (simp add: negated_def split: sum.splits)

text \<open>
  Claim C5. With \<open>stellsym = True\<close> the expanded list is, for each of the \<open>nfp\<close>
  rotations, the base currents followed by their flipped copies
  \<open>ScaledCurrent(c, -1.)\<close>. In every store of dof values, a copy that is not flipped
  has the \<open>get_value()\<close> of its base current \<open>c\<close>, and a flipped copy has its negation.
\<close>

theorem flipped_currents_negated:
  "apply_symmetries_to_currents base_currents nfp True =
     concat (replicate (nat nfp) (base_currents @ map (\<lambda>c. ScaledCurrent c (- 1)) base_currents))
   \<and> map (get_value \<sigma>) (apply_symmetries_to_currents base_currents nfp True) =
     concat (replicate (nat nfp)
       (map (get_value \<sigma>) base_currents @ map (\<lambda>c. negated (get_value \<sigma> c)) base_currents))"
  by (simp add: apply_symmetries_to_currents_blocks map_concat comp_def get_value_flipped
      del: get_value.simps)

text \<open>
  Claim C6. When there is a rotation \<open>k = 0\<close> (\<open>nfp \<ge> 1\<close>), the first \<open>n\<close> entries of
  \<open>apply_symmetries_to_curves\<close> and of \<open>apply_symmetries_to_currents\<close> are the base
  objects themselves, with no wrapper around them.
\<close>

theorem base_objects_reused:
  assumes "1 \<le> nfp"
  shows "take (length base_curves) (apply_symmetries_to_curves base_curves nfp stellsym) = base_curves
       \<and> take (length base_currents) (apply_symmetries_to_currents base_currents nfp stellsym) = base_currents"
proof -
  have "[0..nfp - 1] = 0 # [1..nfp - 1]" using assms by (simp add: upto_rec1)
  then show ?thesis
    by (simp add: apply_symmetries_to_curves_def apply_symmetries_to_currents_def flip_list_def map_nth)
qed

theorem base_objects_reused_witness:
  "(1::int) \<le> 2
   \<and> take 2 (apply_symmetries_to_curves [BaseCurve (0::nat), BaseCurve 1] 2 True) = [BaseCurve 0, BaseCurve 1]
   \<and> take 2 (apply_symmetries_to_currents [Current 0, Current 1] 2 True) = [Current 0, Current 1]"
  using base_objects_reused [of 2 "[BaseCurve (0::nat), BaseCurve 1]" True "[Current 0, Current 1]"]
  by (simp add: numeral_2_eq_2)

section \<open>Properties of the filament rotation\<close>

text \<open>
  The loops of \<open>jaxrotation_pure\<close> and \<open>rotation_dcoeff\<close> update whole arrays; each
  quadrature point has its own entry of the angle and its own row of the matrix, and
  the loops act on every point separately.
\<close>

lemma map2_same: "map2 f (map a ps) (map b ps) = map (\<lambda>p. f (a p) (b p)) ps"
  by (induction ps) simp_all

lemma foldl_map2_pointwise:
  "foldl (\<lambda>rot j. map2 op2 (map2 op1 rot (map (g j) ps)) (map (h j) ps)) (map f0 ps) js =
     map (\<lambda>p. foldl (\<lambda>r j. op2 (op1 r (g j p)) (h j p)) (f0 p) js) ps"
proof (induction js arbitrary: f0)
  case Nil
  then show ?case by simp
next
  case (Cons j js)
  have "map2 op2 (map2 op1 (map f0 ps) (map (g j) ps)) (map (h j) ps) =
          map (\<lambda>p. op2 (op1 (f0 p) (g j p)) (h j p)) ps"
    by (simp only: map2_same)
  then show ?case
    using Cons.IH [of "\<lambda>p. op2 (op1 (f0 p) (g j p)) (h j p)"] by simp
qed

lemma set_col_map: "set_col (map r ps) c (map x ps) = map (\<lambda>p. (r p)[c := x p]) ps"
  unfolding set_col_def by (simp only: map2_same)

lemma foldl_set_col_pointwise:
  "foldl (\<lambda>jac j. set_col (set_col jac (c1 j) (map (g j) ps)) (c2 j) (map (h j) ps)) (map r0 ps) js =
     map (\<lambda>p. foldl (\<lambda>row j. (row[c1 j := g j p])[c2 j := h j p]) (r0 p) js) ps"
proof (induction js arbitrary: r0)
  case Nil
  then show ?case by simp
next
  case (Cons j js)
  have "set_col (set_col (map r0 ps) (c1 j) (map (g j) ps)) (c2 j) (map (h j) ps) =
          map (\<lambda>p. ((r0 p)[c1 j := g j p])[c2 j := h j p]) ps"
    by (simp only: set_col_map)
  then show ?case
    using Cons.IH [of "\<lambda>p. ((r0 p)[c1 j := g j p])[c2 j := h j p]"] by simp
qed

lemma dot_update:
  "i < length xs \<Longrightarrow> i < length ys \<Longrightarrow>
     sum_list (map2 (*) (xs[i := x]) ys) = sum_list (map2 (*) xs ys) + (x - xs ! i) * (ys ! i :: real)"
proof (induction xs arbitrary: i ys)
  case Nil
  then show ?case by simp
next
  case (Cons a xs)
  then show ?case
    by (cases ys; cases i) (simp_all add: algebra_simps)
qed

lemma dot_zero: "sum_list (map2 (*) (replicate n 0) (ys :: real list)) = 0"
  by (induction n arbitrary: ys) (simp, case_tac ys, simp_all)

lemma row_dot:
  fixes c :: "real list"
  assumes "length c = 2 * m + 1" and "length r0 = 2 * m + 1"
    and "\<forall>i. 0 < i \<longrightarrow> i < 2 * m + 1 \<longrightarrow> r0 ! i = 0"
  shows "k \<le> m \<Longrightarrow>
         length (foldl (\<lambda>row j. (row[2 * j - 1 := g j])[2 * j := h j]) r0 [1..<k + 1]) = 2 * m + 1
       \<and> (\<forall>i. 2 * k < i \<longrightarrow> i < 2 * m + 1 \<longrightarrow>
            foldl (\<lambda>row j. (row[2 * j - 1 := g j])[2 * j := h j]) r0 [1..<k + 1] ! i = 0)
       \<and> sum_list (map2 (*) (foldl (\<lambda>row j. (row[2 * j - 1 := g j])[2 * j := h j]) r0 [1..<k + 1]) c) =
           foldl (\<lambda>r j. r + c ! (2 * j - 1) * g j + c ! (2 * j) * h j) (sum_list (map2 (*) r0 c)) [1..<k + 1]"
proof (induction k)
  case 0
  then show ?case using assms by simp
next
  case (Suc k)
  let ?R = "foldl (\<lambda>row j. (row[2 * j - 1 := g j])[2 * j := h j]) r0 [1..<k + 1]"
  have IH: "length ?R = 2 * m + 1"
    "\<forall>i. 2 * k < i \<longrightarrow> i < 2 * m + 1 \<longrightarrow> ?R ! i = 0"
    "sum_list (map2 (*) ?R c) =
       foldl (\<lambda>r j. r + c ! (2 * j - 1) * g j + c ! (2 * j) * h j) (sum_list (map2 (*) r0 c)) [1..<k + 1]"
    using Suc by simp_all
  have km: "Suc k \<le> m" using Suc.prems .
  have z1: "?R ! (2 * k + 1) = 0" and z2: "?R ! (2 * k + 2) = 0"
    using IH(2) km by simp_all
  let ?R1 = "?R[2 * k + 1 := g (Suc k)]"
  have d1: "sum_list (map2 (*) ?R1 c) = sum_list (map2 (*) ?R c) + g (Suc k) * c ! (2 * k + 1)"
    using dot_update [of "2 * k + 1" ?R c "g (Suc k)"] IH(1) assms(1) km z1 by simp
  have "?R1 ! (2 * k + 2) = 0" using z2 by simp
  then have d2: "sum_list (map2 (*) (?R1[2 * k + 2 := h (Suc k)]) c) =
      sum_list (map2 (*) ?R1 c) + h (Suc k) * c ! (2 * k + 2)"
    using dot_update [of "2 * k + 2" ?R1 c "h (Suc k)"] IH(1) assms(1) km by simp
  have step: "foldl (\<lambda>row j. (row[2 * j - 1 := g j])[2 * j := h j]) r0 [1..<Suc k + 1] =
      ?R1[2 * k + 2 := h (Suc k)]"
    by simp
  show ?case
    unfolding step
    using IH d1 d2 by (simp add: algebra_simps)
qed


lemma upd0_dot:
  fixes c :: "real list"
  assumes "length c = 2 * m + 1"
  shows "sum_list (map2 (*) ((replicate (2 * m + 1) 0)[0 := 1]) c) = c ! 0"
  using dot_update [of 0 "replicate (2 * m + 1) 0" c 1] assms
  by (simp add: dot_zero del: replicate_Suc replicate.simps)

lemma jaxrotation_pure_pointwise:
  "jaxrotation_pure dofs points m =
     map (\<lambda>p. foldl (\<lambda>r j. r + dofs ! (2 * j - 1) * sin (2 * pi * real j * p)
                              + dofs ! (2 * j) * cos (2 * pi * real j * p))
                (0 + dofs ! 0) [1..<m + 1]) points"
proof -
  have init: "map (\<lambda>r. r + dofs ! 0) (replicate (length points) 0) = map (\<lambda>p. 0 + dofs ! 0) points"
    by (simp add: map_replicate_const)
  show ?thesis
    unfolding jaxrotation_pure_def vadd_def init
    by (rule foldl_map2_pointwise)
qed

lemma jaxrotationdash_pure_pointwise:
  "jaxrotationdash_pure dofs points m =
     map (\<lambda>p. foldl (\<lambda>r j. r + dofs ! (2 * j - 1) * 2 * pi * real j * cos (2 * pi * real j * p)
                              - dofs ! (2 * j) * 2 * pi * real j * sin (2 * pi * real j * p))
                0 [1..<m + 1]) points"
proof -
  have init: "replicate (length points) (0::real) = map (\<lambda>p. 0) points"
    by (simp add: map_replicate_const)
  show ?thesis
    unfolding jaxrotationdash_pure_def vadd_def vsub_def init
    by (rule foldl_map2_pointwise)
qed

lemma rotation_dcoeff_pointwise:
  "rotation_dcoeff points m =
     map (\<lambda>p. foldl (\<lambda>row j. (row[2 * j - 1 := sin (2 * pi * real j * p)])
                                [2 * j := cos (2 * pi * real j * p)])
                ((replicate (2 * m + 1) 0)[0 := 1]) [1..<m + 1]) points"
proof -
  have init: "set_col (replicate (length points) (replicate (2 * m + 1) 0)) 0 (replicate (length points) 1) =
      map (\<lambda>p. (replicate (2 * m + 1) (0::real))[0 := 1]) points"
    using set_col_map [of "\<lambda>p. replicate (2 * m + 1) 0" points 0 "\<lambda>p. 1"]
    by (simp only: map_replicate_const)
  show ?thesis
    unfolding rotation_dcoeff_def init add_0_right
    by (rule foldl_set_col_pointwise)
qed

lemma rotationdash_dcoeff_pointwise:
  "rotationdash_dcoeff points m =
     map (\<lambda>p. foldl (\<lambda>row j. (row[2 * j - 1 := 2 * pi * real j * cos (2 * pi * real j * p)])
                                [2 * j := - 2 * pi * real j * sin (2 * pi * real j * p)])
                (replicate (2 * m + 1) 0) [1..<m + 1]) points"
proof -
  have init: "replicate (length points) (replicate (2 * m + 1) (0::real)) =
      map (\<lambda>p. replicate (2 * m + 1) 0) points"
    by (simp only: map_replicate_const)
  show ?thesis
    unfolding rotationdash_dcoeff_def init add_0_right
    by (rule foldl_set_col_pointwise)
qed

lemma alpha_linear:
  assumes "length dofs = 2 * m + 1"
  shows "jaxrotation_pure dofs points m = matvec (rotation_dcoeff points m) dofs"
proof -
  let ?r0 = "(replicate (2 * m + 1) (0::real))[0 := 1]"
  have a2: "length ?r0 = 2 * m + 1" by simp
  have a3: "\<forall>i. 0 < i \<longrightarrow> i < 2 * m + 1 \<longrightarrow> ?r0 ! i = 0" by simp
  have r: "sum_list (map2 (*)
          (foldl (\<lambda>row j. (row[2 * j - 1 := sin (2 * pi * real j * p)])[2 * j := cos (2 * pi * real j * p)])
             ?r0 [1..<m + 1]) dofs) =
        foldl (\<lambda>r j. r + dofs ! (2 * j - 1) * sin (2 * pi * real j * p)
                        + dofs ! (2 * j) * cos (2 * pi * real j * p))
          (0 + dofs ! 0) [1..<m + 1]" for p
    using row_dot [OF assms a2 a3 le_refl, of "\<lambda>j. sin (2 * pi * real j * p)"
        "\<lambda>j. cos (2 * pi * real j * p)", THEN conjunct2, THEN conjunct2]
    by (simp only: upd0_dot [OF assms] add_0_left)
  show ?thesis
    by (simp only: jaxrotation_pure_pointwise rotation_dcoeff_pointwise matvec_def map_map comp_def r)
qed

lemma alphadash_linear:
  assumes "length dofs = 2 * m + 1"
  shows "jaxrotationdash_pure dofs points m = matvec (rotationdash_dcoeff points m) dofs"
proof -
  let ?r0 = "replicate (2 * m + 1) (0::real)"
  have a2: "length ?r0 = 2 * m + 1" by simp
  have a3: "\<forall>i. 0 < i \<longrightarrow> i < 2 * m + 1 \<longrightarrow> ?r0 ! i = 0" by simp
  have step: "(\<lambda>r j. r + dofs ! (2 * j - 1) * (2 * pi * real j * cos (2 * pi * real j * p))
                        + dofs ! (2 * j) * (- 2 * pi * real j * sin (2 * pi * real j * p))) =
              (\<lambda>r j. r + dofs ! (2 * j - 1) * 2 * pi * real j * cos (2 * pi * real j * p)
                        - dofs ! (2 * j) * 2 * pi * real j * sin (2 * pi * real j * p))" for p
    by (intro ext) (simp add: algebra_simps)
  have r: "sum_list (map2 (*)
          (foldl (\<lambda>row j. (row[2 * j - 1 := 2 * pi * real j * cos (2 * pi * real j * p)])
                            [2 * j := - 2 * pi * real j * sin (2 * pi * real j * p)])
             ?r0 [1..<m + 1]) dofs) =
        foldl (\<lambda>r j. r + dofs ! (2 * j - 1) * 2 * pi * real j * cos (2 * pi * real j * p)
                        - dofs ! (2 * j) * 2 * pi * real j * sin (2 * pi * real j * p))
          0 [1..<m + 1]" for p
    using row_dot [OF assms a2 a3 le_refl, of "\<lambda>j. 2 * pi * real j * cos (2 * pi * real j * p)"
        "\<lambda>j. - 2 * pi * real j * sin (2 * pi * real j * p)", THEN conjunct2, THEN conjunct2]
    by (simp only: dot_zero step)
  show ?thesis
    by (simp only: jaxrotationdash_pure_pointwise rotationdash_dcoeff_pointwise matvec_def map_map comp_def r)
qed

lemma foldl_add_sum:
  "foldl (\<lambda>r j. r + f j + g j) (a::real) [1..<m + 1] = a + (\<Sum>j = 1..m. f j + g j)"
  by (induction m) (simp_all add: algebra_simps)

lemma alpha_series:
  "jaxrotation_pure c points m =
     map (\<lambda>p. c ! 0 + (\<Sum>j = 1..m. c ! (2 * j - 1) * sin (2 * pi * real j * p)
                                    + c ! (2 * j) * cos (2 * pi * real j * p))) points"
  by (simp only: jaxrotation_pure_pointwise foldl_add_sum add_0_left)

text \<open>
  Claim C9. For a \<open>FilamentRotation\<close> of order \<open>m\<close>, every dof vector \<open>c\<close> (of its
  length \<open>2m + 1\<close>) and every set of quadrature points, \<open>alpha\<close> is the matrix
  \<open>rotation_dcoeff(quadpoints, m)\<close> applied to \<open>c\<close>, that is the Fourier series
  \<open>c[0] + \<Sum>\<^sub>j c[2j-1] sin(2\<pi>jp) + c[2j] cos(2\<pi>jp)\<close>, and \<open>alphadash\<close> is
  \<open>rotationdash_dcoeff(quadpoints, m)\<close> applied to \<open>c\<close>. For the object the constructor
  builds, whatever its dofs are set to, the matrices \<open>jac\<close> and \<open>jacdash\<close> that
  \<open>dalpha_by_dcoeff_vjp\<close> and \<open>dalphadash_by_dcoeff_vjp\<close> hand to \<open>sopp.vjp\<close> are these
  matrices at the constructor's quadrature points: \<open>alpha\<close> and \<open>alphadash\<close> are linear
  in the dofs with exactly these matrices, which therefore are their Jacobians.
\<close>

theorem filament_rotation_linear:
  assumes "length c = 2 * m + 1"
  shows "jaxrotation_pure c points m = matvec (rotation_dcoeff points m) c
       \<and> jaxrotation_pure c points m =
           map (\<lambda>p. c ! 0 + (\<Sum>j = 1..m. c ! (2 * j - 1) * sin (2 * pi * real j * p)
                                          + c ! (2 * j) * cos (2 * pi * real j * p))) points
       \<and> jaxrotationdash_pure c points m = matvec (rotationdash_dcoeff points m) c
       \<and> alpha (Filament ((FilamentRotation_init k qp m)\<lparr>full_x := c\<rparr>)) qp =
           matvec (jac ((FilamentRotation_init k qp m)\<lparr>full_x := c\<rparr>)) c
       \<and> alphadash (Filament ((FilamentRotation_init k qp m)\<lparr>full_x := c\<rparr>)) qp =
           matvec (jacdash ((FilamentRotation_init k qp m)\<lparr>full_x := c\<rparr>)) c
       \<and> dalpha_by_dcoeff_vjp S (Filament ((FilamentRotation_init k qp m)\<lparr>full_x := c\<rparr>)) qp v =
           [k \<mapsto> S v (rotation_dcoeff qp m)]
       \<and> dalphadash_by_dcoeff_vjp S (Filament ((FilamentRotation_init k qp m)\<lparr>full_x := c\<rparr>)) qp v =
           [k \<mapsto> S v (rotationdash_dcoeff qp m)]"
  using alpha_linear [OF assms] alphadash_linear [OF assms] alpha_series [of c _ m]
  by (simp add: FilamentRotation_init_def)

theorem filament_rotation_linear_witness:
  "length [1, 2, 3 :: real] = 2 * 1 + 1
   \<and> matvec (rotation_dcoeff [0] 1) [1, 2, 3] = [4]
   \<and> matvec (rotationdash_dcoeff [0] 1) [1, 2, 3] = [4 * pi]"
  using filament_rotation_linear [of "[1, 2, 3]" 1 "[0]" "0::nat" "[0]" "\<lambda>v J. v" "[]"]
  by (simp add: jaxrotation_pure_def jaxrotationdash_pure_def vadd_def vsub_def)

section \<open>Properties of CurveShiftedRotated\<close>

text \<open>
  Claim C10. A \<open>CurveShiftedRotated\<close> built with \<open>rotation = None\<close> holds a
  \<open>ZeroRotation\<close>: its \<open>alpha\<close> and \<open>alphadash\<close> are zero at every quadrature point of the
  curve, its two VJP methods return the empty Derivative, and the dependency list is
  the base curve alone. So \<open>dgamma_by_dcoeff_vjp\<close> and \<open>dgammadash_by_dcoeff_vjp\<close> are
  sums of the base curve's own VJPs, and the keys of the result are keys of those.
\<close>

theorem zero_rotation_default:
  "rotation (CurveShiftedRotated_init c dn' db' None) =
     ZeroRotation (replicate (length (curve_quadpoints c)) 0)
   \<and> alpha (rotation (CurveShiftedRotated_init c dn' db' None)) qp =
       replicate (length (curve_quadpoints c)) 0
   \<and> alphadash (rotation (CurveShiftedRotated_init c dn' db' None)) qp =
       replicate (length (curve_quadpoints c)) 0
   \<and> dalpha_by_dcoeff_vjp S (rotation (CurveShiftedRotated_init c dn' db' None)) qp va = Map.empty
   \<and> dalphadash_by_dcoeff_vjp S (rotation (CurveShiftedRotated_init c dn' db' None)) qp va = Map.empty
   \<and> depends_on (CurveShiftedRotated_init c dn' db' None) = [CurveDep c]
   \<and> dgamma_by_dcoeff_vjp jx S (CurveShiftedRotated_init c dn' db' None) v =
       derivative_add
         (curve_dgamma_by_dcoeff_vjp c
            (arr_add v (rotated_centroid_frame_dcoeff_vjp0 jx (gamma c) (gammadash c)
               (replicate (length (curve_quadpoints c)) 0)
               (zeros_like v, arr_scale dn' v, arr_scale db' v))))
         (curve_dgammadash_by_dcoeff_vjp c
            (rotated_centroid_frame_dcoeff_vjp1 jx (gamma c) (gammadash c)
               (replicate (length (curve_quadpoints c)) 0)
               (zeros_like v, arr_scale dn' v, arr_scale db' v)))
   \<and> dgammadash_by_dcoeff_vjp jx S (CurveShiftedRotated_init c dn' db' None) v =
       derivative_add
         (derivative_add
            (curve_dgamma_by_dcoeff_vjp c
               (rotated_centroid_frame_dash_dcoeff_vjp0 jx (gamma c) (gammadash c) (gammadashdash c)
                  (replicate (length (curve_quadpoints c)) 0) (replicate (length (curve_quadpoints c)) 0)
                  (zeros_like v, arr_scale dn' v, arr_scale db' v)))
            (curve_dgammadash_by_dcoeff_vjp c
               (arr_add v (rotated_centroid_frame_dash_dcoeff_vjp1 jx (gamma c) (gammadash c) (gammadashdash c)
                  (replicate (length (curve_quadpoints c)) 0) (replicate (length (curve_quadpoints c)) 0)
                  (zeros_like v, arr_scale dn' v, arr_scale db' v)))))
         (curve_dgammadashdash_by_dcoeff_vjp c
            (rotated_centroid_frame_dash_dcoeff_vjp2 jx (gamma c) (gammadash c) (gammadashdash c)
               (replicate (length (curve_quadpoints c)) 0) (replicate (length (curve_quadpoints c)) 0)
               (zeros_like v, arr_scale dn' v, arr_scale db' v)))
   \<and> dom (dgamma_by_dcoeff_vjp jx S (CurveShiftedRotated_init c dn' db' None) v) =
       dom (curve_dgamma_by_dcoeff_vjp c
            (arr_add v (rotated_centroid_frame_dcoeff_vjp0 jx (gamma c) (gammadash c)
               (replicate (length (curve_quadpoints c)) 0)
               (zeros_like v, arr_scale dn' v, arr_scale db' v))))
       \<union> dom (curve_dgammadash_by_dcoeff_vjp c
            (rotated_centroid_frame_dcoeff_vjp1 jx (gamma c) (gammadash c)
               (replicate (length (curve_quadpoints c)) 0)
               (zeros_like v, arr_scale dn' v, arr_scale db' v)))"
  by (simp add: CurveShiftedRotated_init_def ZeroRotation_init_def dgamma_by_dcoeff_vjp_def
      dgammadash_by_dcoeff_vjp_def Let_def derivative_add_empty_right dom_derivative_add)

section \<open>Properties of SquaredFlux\<close>

lemma dJ_point:
  assumes "a \<noteq> 0"
  shows "divide3 (times3 (scale3 b (times3 v (1 / a))) a) N = scale3 (b * a / N) (scale3 (1 / a) v)"
  using assms by (cases v) (simp add: field_simps)

lemma cotangent_eq:
  assumes "length Bs = length n"
  shows "map (\<lambda>(b, u, a).
               case b of None \<Rightarrow> None
               | Some b' \<Rightarrow> (case u of None \<Rightarrow> None
                   | Some u' \<Rightarrow> Some (divide3 (times3 (scale3 b' u') a) (real (length (map norm3 n))))))
           (zip (case tgt of
                   Some t \<Rightarrow> map (\<lambda>i. map_option (\<lambda>x. x - t i)
                       (map2 (\<lambda>b u. map_option (sum_prod3 b) u) Bs
                          (map2 (\<lambda>v a. if a = 0 then None else Some (times3 v (1 / a))) n (map norm3 n)) ! i))
                     [0..<length (map2 (\<lambda>b u. map_option (sum_prod3 b) u) Bs
                          (map2 (\<lambda>v a. if a = 0 then None else Some (times3 v (1 / a))) n (map norm3 n)))]
                 | None \<Rightarrow> map2 (\<lambda>b u. map_option (sum_prod3 b) u) Bs
                          (map2 (\<lambda>v a. if a = 0 then None else Some (times3 v (1 / a))) n (map norm3 n)))
              (zip (map2 (\<lambda>v a. if a = 0 then None else Some (times3 v (1 / a))) n (map norm3 n))
                   (map norm3 n))) =
         area_cotangent n Bs tgt"
  (is "?lhs = _")
proof (rule nth_equalityI)
  show len: "length ?lhs = length (area_cotangent n Bs tgt)"
    using assms by (simp add: area_cotangent_def split: option.splits)
  fix i
  assume "i < length ?lhs"
  then have i: "i < length n"
    using len by (simp add: area_cotangent_def)
  show "?lhs ! i = area_cotangent n Bs tgt ! i"
  proof (cases "norm3 (n ! i) = 0")
    case True
    then show ?thesis
      using i assms by (simp add: area_cotangent_def split: option.splits)
  next
    case False
    have "divide3 (times3 (scale3 b (times3 (n ! i) (1 / norm3 (n ! i)))) (norm3 (n ! i))) N =
          scale3 (b * norm3 (n ! i) / N) (scale3 (1 / norm3 (n ! i)) (n ! i))" for b N
      by (rule dJ_point [OF False])
    moreover have "sum_prod3 b (times3 v c) = sum_prod3 b (scale3 c v)" for b v c
      by (cases b; cases v) (simp add: mult.commute)
    ultimately show ?thesis
      using i assms False
      by (simp add: area_cotangent_def spec_residual_def unit_normal_def split: option.splits)
  qed
qed

text \<open>
  Claim C1, as stated, fails. Take the one-point surface with normal \<open>(2, 0, 0)\<close>, the
  field \<open>(1, 0, 0)\<close> and no target, \<open>B_vjp\<close> the identity and the number of rows for
  \<open>Derivative.__call__\<close>. The body of \<open>dJ\<close> hands \<open>(2, 0, 0)\<close> to \<open>B_vjp\<close>, while the
  formula \<open>residual \<cdot> n\<hat> \<cdot> |n\<hat>| / N\<close> gives \<open>(1, 0, 0)\<close> when \<open>n\<hat>\<close> is the unit normal and
  \<open>(8, 0, 0)\<close> when \<open>n\<hat>\<close> is the normal as the surface returns it. And the plain call
  \<open>dJ()\<close> does not return what \<open>B_vjp\<close> returned, but the flat gradient made from it.
\<close>

theorem dJ_spec_counterexample:
  "dJ (\<lambda>d self. length d)
      \<lparr> surface = \<lparr> normal = [(2, 0, 0)] \<rparr>, target = None,
        field = \<lparr> B = [(1, 0, 0)], B_vjp = (\<lambda>v. v) \<rparr> \<rparr> True = Inr (Partials [Some (2, 0, 0)])
   \<and> spec_cotangent (unit_normal [(2, 0, 0)]) [(1, 0, 0)] None = [(1, 0, 0)]
   \<and> spec_cotangent [(2, 0, 0)] [(1, 0, 0)] None = [(8, 0, 0)]
   \<and> dJ (\<lambda>d self. length d)
        \<lparr> surface = \<lparr> normal = [(2, 0, 0)] \<rparr>, target = None,
          field = \<lparr> B = [(1, 0, 0)], B_vjp = (\<lambda>v. v) \<rparr> \<rparr> True \<noteq>
       Inr (Partials (map Some (spec_cotangent (unit_normal [(2, 0, 0)]) [(1, 0, 0)] None)))
   \<and> dJ (\<lambda>d self. length d)
        \<lparr> surface = \<lparr> normal = [(2, 0, 0)] \<rparr>, target = None,
          field = \<lparr> B = [(1, 0, 0)], B_vjp = (\<lambda>v. v) \<rparr> \<rparr> True \<noteq>
       Inr (Partials (map Some (spec_cotangent [(2, 0, 0)] [(1, 0, 0)] None)))
   \<and> dJ (\<lambda>d self. length d)
        \<lparr> surface = \<lparr> normal = [(2, 0, 0)] \<rparr>, target = None,
          field = \<lparr> B = [(1, 0, 0)], B_vjp = (\<lambda>v. v) \<rparr> \<rparr> False = Inr (Gradient 1)"
  by (simp add: dJ_def derivative_dec_def dJ_body_def spec_cotangent_def spec_residual_def unit_normal_def)

text \<open>
  Claim C1, amended. When the field has one row for each quadrature point of the
  surface, the body of \<open>dJ\<close> calls \<open>field.B_vjp\<close> on the cotangent
  \<open>residual \<cdot> n\<hat> \<cdot> |n| / N\<close>: \<open>n\<close> is the normal the surface returns, \<open>n\<hat> = n / |n|\<close>,
  the residual is \<open>B\<cdot>n\<hat> - target\<close> (target zero when none is given), \<open>N\<close> is the number
  of quadrature points, and a row is \<open>nan\<close> where the normal is the zero vector.
  \<open>dJ(partials=True)\<close> returns exactly what \<open>B_vjp\<close> returned; the plain call \<open>dJ()\<close>
  returns that Derivative called on the object, the flat gradient.
\<close>

theorem dJ_cotangent:
  assumes "length (B (field self)) = length (normal (surface self))"
  shows "dJ call self True =
           Inr (Partials (B_vjp (field self)
             (area_cotangent (normal (surface self)) (B (field self)) (target self))))
       \<and> dJ call self False =
           Inr (Gradient (call (B_vjp (field self)
             (area_cotangent (normal (surface self)) (B (field self)) (target self))) self))"
proof -
  have "dJ_body self = Inr (B_vjp (field self)
          (area_cotangent (normal (surface self)) (B (field self)) (target self)))"
    using assms
    by (simp only: dJ_body_def Let_def cotangent_eq [OF assms] simp_thms if_False)
  then show ?thesis
    by (simp add: dJ_def derivative_dec_def)
qed

theorem dJ_cotangent_witness:
  "length [(1, 1, 1), (5, 0, 0), (7, 7, 7)] = length [(0, 2, 0), (3, 0, 4), (0, 0, 0 :: real)]
   \<and> dJ (\<lambda>d self. length d)
        \<lparr> surface = \<lparr> normal = [(0, 2, 0), (3, 0, 4), (0, 0, 0)] \<rparr>,
          target = Some (\<lambda>i. [1, 2, 9] ! i),
          field = \<lparr> B = [(1, 1, 1), (5, 0, 0), (7, 7, 7)], B_vjp = (\<lambda>v. v) \<rparr> \<rparr> True =
       Inr (Partials [Some (0, 0, 0), Some (1, 0, 4 / 3), None])
   \<and> dJ (\<lambda>d self. length d)
        \<lparr> surface = \<lparr> normal = [(0, 2, 0), (3, 0, 4), (0, 0, 0)] \<rparr>,
          target = Some (\<lambda>i. [1, 2, 9] ! i),
          field = \<lparr> B = [(1, 1, 1), (5, 0, 0), (7, 7, 7)], B_vjp = (\<lambda>v. v) \<rparr> \<rparr> False =
       Inr (Gradient 3)"
  using dJ_cotangent [of "\<lparr> surface = \<lparr> normal = [(0, 2, 0), (3, 0, 4), (0, 0, 0)] \<rparr>,
          target = Some (\<lambda>i. [1, 2, 9] ! i),
          field = \<lparr> B = [(1, 1, 1), (5, 0, 0), (7, 7, 7)], B_vjp = (\<lambda>v. v) \<rparr> \<rparr>" "\<lambda>d self. length d"]
  by (simp add: area_cotangent_def spec_residual_def unit_normal_def upt_rec)

end
